theory Spec2Isabelle
  imports Main "HOL-Library.Sublist"
begin

section \<open>Python strings and integers\<close>

text \<open>
  The inventory application (\<^verbatim>\<open>app.py\<close>) works on Python strings and unbounded
  integers. A \<^typ>\<open>char\<close> stands for one code point below 256 and a \<^typ>\<open>string\<close>
  for a Python \<^verbatim>\<open>str\<close> over these code points; Python's \<^verbatim>\<open>int\<close> is \<^typ>\<open>int\<close>.
\<close>

definition isspace :: "char \<Rightarrow> bool" where
  \<comment> \<open>\<^verbatim>\<open>str.isspace\<close> on one code point: what \<^verbatim>\<open>str.strip()\<close> and \<^verbatim>\<open>str.split()\<close> remove.\<close>
  "isspace c \<longleftrightarrow> c \<in> set [CHR 0x09, CHR 0x0A, CHR 0x0B, CHR 0x0C, CHR 0x0D,
     CHR 0x1C, CHR 0x1D, CHR 0x1E, CHR 0x1F, CHR 0x20, CHR 0x85, CHR 0xA0]"

definition int_space :: "char \<Rightarrow> bool" where
  \<comment> \<open>The white space that \<^verbatim>\<open>int(str)\<close> skips around the number.\<close>
  "int_space c \<longleftrightarrow> c \<in> set [CHR 0x09, CHR 0x0A, CHR 0x0B, CHR 0x0C, CHR 0x0D,
     CHR 0x20, CHR 0x85, CHR 0xA0]"

definition strip_with :: "(char \<Rightarrow> bool) \<Rightarrow> string \<Rightarrow> string" where
  "strip_with p s = rev (dropWhile p (rev (dropWhile p s)))"

definition strip :: "string \<Rightarrow> string" where
  \<comment> \<open>\<^verbatim>\<open>s.strip()\<close>\<close>
  "strip s = strip_with isspace s"

definition strip_chars :: "string \<Rightarrow> string \<Rightarrow> string" where
  \<comment> \<open>\<^verbatim>\<open>s.strip(chars)\<close>\<close>
  "strip_chars s chars = strip_with (\<lambda>c. c \<in> set chars) s"

fun split_sep :: "char \<Rightarrow> string \<Rightarrow> string list" where
  \<comment> \<open>\<^verbatim>\<open>s.split(sep)\<close> for a separator of one character; the result is never empty.\<close>
  "split_sep sep [] = [[]]"
| "split_sep sep (c # cs) =
     (if c = sep then [] # split_sep sep cs
      else (let r = split_sep sep cs in (c # hd r) # tl r))"

fun split_ws :: "string \<Rightarrow> string list" where
  \<comment> \<open>\<^verbatim>\<open>s.split()\<close>: the maximal runs of characters that are not white space.\<close>
  "split_ws [] = []"
| "split_ws (c # cs) =
     (if isspace c then split_ws cs
      else (case cs of
              [] \<Rightarrow> [[c]]
            | d # _ \<Rightarrow> if isspace d then [c] # split_ws cs
                       else (let r = split_ws cs in (c # hd r) # tl r)))"

declare split_ws.simps [simp del]

definition startswith :: "string \<Rightarrow> string \<Rightarrow> bool" where
  "startswith s p \<longleftrightarrow> take (length p) s = p"

definition isdigit :: "char \<Rightarrow> bool" where
  \<comment> \<open>The decimal digits \<^verbatim>\<open>0\<close> to \<^verbatim>\<open>9\<close>.\<close>
  "isdigit c \<longleftrightarrow> 48 \<le> (of_char c :: nat) \<and> (of_char c :: nat) \<le> 57"

definition digit_val :: "char \<Rightarrow> nat" where
  "digit_val c = of_char c - 48"

definition digit_char :: "nat \<Rightarrow> char" where
  "digit_char d = ''0123456789'' ! d"

fun str_of_nat :: "nat \<Rightarrow> string" where
  "str_of_nat n =
     (if n < 10 then [digit_char n] else str_of_nat (n div 10) @ [digit_char (n mod 10)])"

declare str_of_nat.simps [simp del]

definition str_of_int :: "int \<Rightarrow> string" where
  \<comment> \<open>\<^verbatim>\<open>f"{i}"\<close>: the decimal text of an integer.\<close>
  "str_of_int i = (if i < 0 then CHR ''-'' # str_of_nat (nat (- i)) else str_of_nat (nat i))"

definition format_04d :: "int \<Rightarrow> string" where
  \<comment> \<open>\<^verbatim>\<open>f"{i:04d}"\<close>: the sign, then zeros up to a width of four, then the digits.\<close>
  "format_04d i =
     (let sgn = (if i < 0 then ''-'' else '''');
          ds = str_of_nat (nat \<bar>i\<bar>)
      in sgn @ replicate (4 - length sgn - length ds) CHR ''0'' @ ds)"

fun int_digits :: "bool \<Rightarrow> nat \<Rightarrow> string \<Rightarrow> nat option" where
  \<comment> \<open>The digits of \<^verbatim>\<open>int(str)\<close>: decimal digits, single underscores between digits only.
      The flag says that the character before was a digit.\<close>
  "int_digits prev acc [] = (if prev then Some acc else None)"
| "int_digits prev acc (c # cs) =
     (if isdigit c then int_digits True (10 * acc + digit_val c) cs
      else if c = CHR ''_'' \<and> prev then int_digits False acc cs
      else None)"

definition py_int :: "string \<Rightarrow> int option" where
  \<comment> \<open>\<^verbatim>\<open>int(s)\<close> in base ten; \<open>None\<close> is \<^verbatim>\<open>ValueError\<close>.\<close>
  "py_int s =
     (case strip_with int_space s of
        [] \<Rightarrow> None
      | c # cs \<Rightarrow>
          if c = CHR ''+'' then map_option int (int_digits False 0 cs)
          else if c = CHR ''-'' then map_option (\<lambda>n. - int n) (int_digits False 0 cs)
          else map_option int (int_digits False 0 (c # cs)))"

section \<open>The inventory table\<close>

text \<open>
  One row of the data frame. A text cell holds a string or is missing (NaN): \<open>None\<close>.
  The columns \<^verbatim>\<open>quantity\<close> and \<^verbatim>\<open>reorder_level\<close> are integers once \<^verbatim>\<open>load_data\<close> has
  run; \<^verbatim>\<open>load_data\<close> itself is pandas' \<^verbatim>\<open>read_csv\<close> and \<^verbatim>\<open>to_numeric\<close> and is not modelled.
\<close>

record item =
  item_id :: "string option"
  item_name :: "string option"
  category :: "string option"
  unit :: "string option"
  quantity :: int
  reorder_level :: int
  location :: "string option"
  last_updated :: "string option"
  remarks :: "string option"

type_synonym table = "item list"

section \<open>Identifier generation\<close>

fun collect_nums :: "string list \<Rightarrow> int list" where
  \<comment> \<open>The loop of \<^verbatim>\<open>generate_item_id\<close>: an id whose last segment does not parse is skipped.\<close>
  "collect_nums [] = []"
| "collect_nums (x # xs) =
     (case py_int (last (split_sep CHR ''-'' x)) of
        None \<Rightarrow> collect_nums xs
      | Some n \<Rightarrow> n # collect_nums xs)"

definition max_list :: "int list \<Rightarrow> int" where
  \<comment> \<open>\<^verbatim>\<open>max(nums)\<close> on a list that is not empty.\<close>
  "max_list ns = fold max (tl ns) (hd ns)"

definition generate_item_id :: "table \<Rightarrow> string" where
  "generate_item_id df =
     (if df = [] then ''STN-0001''
      else (let existing_ids = List.map_filter item_id df;
                nums = collect_nums existing_ids;
                next_num = (if nums \<noteq> [] then max_list nums + 1 else 1)
            in ''STN-'' @ format_04d next_num))"

definition after_last :: "char \<Rightarrow> string \<Rightarrow> string" where
  \<comment> \<open>In the specification's words: the suffix after the last occurrence of a character
      (the whole text when the character does not occur).\<close>
  "after_last c s = rev (takeWhile (\<lambda>x. x \<noteq> c) (rev s))"

definition parsed_suffixes :: "table \<Rightarrow> int list" where
  \<comment> \<open>In the specification's words: the parsed suffixes of the ids of a table, without the
      missing ids and the ids whose suffix does not parse.\<close>
  "parsed_suffixes df =
     List.map_filter
       (\<lambda>r. case item_id r of None \<Rightarrow> None | Some x \<Rightarrow> py_int (after_last CHR ''-'' x)) df"

definition next_num :: "table \<Rightarrow> int" where
  \<comment> \<open>In the specification's words: the greatest parsed suffix plus one, or 1 when no
      suffix parses.\<close>
  "next_num df = (if parsed_suffixes df = [] then 1 else Max (set (parsed_suffixes df)) + 1)"

definition digits_val :: "nat \<Rightarrow> string \<Rightarrow> nat" where
  \<comment> \<open>The number that a text of decimal digits denotes, after the digits read so far.\<close>
  "digits_val acc s = foldl (\<lambda>a c. 10 * a + digit_val c) acc s"

section \<open>Filtering\<close>

definition isin :: "string option \<Rightarrow> string list \<Rightarrow> bool" where
  \<comment> \<open>\<^verbatim>\<open>Series.isin\<close> on one cell: a missing cell is in no list of strings.\<close>
  "isin cell vals \<longleftrightarrow> (case cell of None \<Rightarrow> False | Some v \<Rightarrow> v \<in> set vals)"

definition apply_filters :: "table \<Rightarrow> string list \<Rightarrow> string list \<Rightarrow> bool \<Rightarrow> table" where
  "apply_filters df category_filter location_filter low_stock_only =
     (let df1 = (if category_filter \<noteq> [] then filter (\<lambda>r. isin (category r) category_filter) df
                 else df);
          df2 = (if location_filter \<noteq> [] then filter (\<lambda>r. isin (location r) location_filter) df1
                 else df1);
          df3 = (if low_stock_only then filter (\<lambda>r. quantity r \<le> reorder_level r) df2 else df2)
      in df3)"

section \<open>The pages\<close>

text \<open>
  A page function reads the widgets, may change the table and writes it back with
  \<^verbatim>\<open>save_data\<close>. The model takes the table that \<^verbatim>\<open>load_data\<close> returned and the values of
  the widgets (with the submit button pressed) and returns what the page reports together
  with the table that the file holds afterwards: the table as it was where the page returns
  or raises before \<^verbatim>\<open>save_data\<close>. The time stamp \<^verbatim>\<open>datetime.now().strftime(...)\<close> is the
  argument \<open>now\<close>.

  The source reports failures with \<^verbatim>\<open>st.error\<close>; the constructors carry the names that the
  specification gives them: \<open>ValidationError\<close> is \<^verbatim>\<open>"Item name is required."\<close>,
  \<open>InsufficientStockError\<close> is \<^verbatim>\<open>"Cannot issue ...; only ... available."\<close>. No statement of
  the source reports \<open>NotFoundError\<close>. \<open>IndexError\<close> is the exception that \<^verbatim>\<open>[0]\<close> and
  \<^verbatim>\<open>.iloc[0]\<close> raise on an empty selection; no page catches it. \<open>Info\<close> is the
  \<^verbatim>\<open>st.info\<close> notice of a page that finds the table empty.
\<close>

datatype error = ValidationError | InsufficientStockError | NotFoundError | IndexError

datatype outcome = Success | Info | Failed error

definition id_eq :: "string option \<Rightarrow> string option \<Rightarrow> bool" where
  \<comment> \<open>\<^verbatim>\<open>df["item_id"] == selected_id\<close> on one cell: a missing value equals nothing.\<close>
  "id_eq cell sel \<longleftrightarrow> (case (cell, sel) of (Some a, Some b) \<Rightarrow> a = b | _ \<Rightarrow> False)"

fun first_index :: "('a \<Rightarrow> bool) \<Rightarrow> 'a list \<Rightarrow> nat option" where
  \<comment> \<open>\<^verbatim>\<open>df.index[mask][0]\<close>: the position of the first row of the mask; \<open>None\<close> where
      \<^verbatim>\<open>[0]\<close> raises.\<close>
  "first_index P [] = None"
| "first_index P (x # xs) = (if P x then Some 0 else map_option Suc (first_index P xs))"

definition or_default :: "string \<Rightarrow> string \<Rightarrow> string" where
  \<comment> \<open>\<^verbatim>\<open>s or d\<close> on strings\<close>
  "or_default s d = (if s = [] then d else s)"

record item_form =
  f_item_name :: string
  f_category :: string
  f_unit :: string
  f_location :: string
  f_quantity :: int
  f_reorder_level :: int
  f_remarks :: string

datatype edit_mode = Add_new_item | Update_existing_item

definition page_add_edit ::
  "table \<Rightarrow> edit_mode \<Rightarrow> string option \<Rightarrow> item_form \<Rightarrow> string \<Rightarrow> outcome \<times> table" where
  "page_add_edit df mode selected_id f now =
     (case mode of
        Add_new_item \<Rightarrow>
          if strip (f_item_name f) = [] then (Failed ValidationError, df)
          else (let new_id = generate_item_id df;
                    new_row = \<lparr>item_id = Some new_id,
                               item_name = Some (strip (f_item_name f)),
                               category = Some (or_default (strip (f_category f)) ''Uncategorized''),
                               unit = Some (or_default (strip (f_unit f)) ''Nos''),
                               quantity = f_quantity f,
                               reorder_level = f_reorder_level f,
                               location = Some (or_default (strip (f_location f)) ''Not specified''),
                               last_updated = Some now,
                               remarks = Some (strip (f_remarks f))\<rparr>
                in (Success, df @ [new_row]))
      | Update_existing_item \<Rightarrow>
          if df = [] then (Info, df)
          else (case filter (\<lambda>r. id_eq (item_id r) selected_id) df of
                  [] \<Rightarrow> (Failed IndexError, df)
                | row # _ \<Rightarrow>
                    if strip (f_item_name f) = [] then (Failed ValidationError, df)
                    else (case first_index (\<lambda>r. id_eq (item_id r) selected_id) df of
                            None \<Rightarrow> (Failed IndexError, df)
                          | Some idx \<Rightarrow>
                              (Success,
                               df[idx := (df ! idx)
                                 \<lparr>item_name := Some (strip (f_item_name f)),
                                  category := Some (or_default (strip (f_category f)) ''Uncategorized''),
                                  unit := Some (or_default (strip (f_unit f)) ''Nos''),
                                  location := Some (or_default (strip (f_location f)) ''Not specified''),
                                  quantity := f_quantity f,
                                  reorder_level := f_reorder_level f,
                                  remarks := Some (strip (f_remarks f)),
                                  last_updated := Some now\<rparr>]))))"

datatype txn_mode = Issue | Receive

fun radio_label :: "txn_mode \<Rightarrow> string" where
  \<comment> \<open>The two options of the radio button \<^verbatim>\<open>Transaction type\<close>.\<close>
  "radio_label Issue = ''Issue (decrease stock)''"
| "radio_label Receive = ''Receive (increase stock)''"

definition page_issue_receive ::
  "table \<Rightarrow> string option \<Rightarrow> txn_mode \<Rightarrow> int \<Rightarrow> string \<Rightarrow> string \<Rightarrow> outcome \<times> table" where
  "page_issue_receive df selected_id m qty reason now =
     (if df = [] then (Info, df)
      else (case filter (\<lambda>r. id_eq (item_id r) selected_id) df of
              [] \<Rightarrow> (Failed IndexError, df)
            | row # _ \<Rightarrow>
               (case first_index (\<lambda>r. id_eq (item_id r) selected_id) df of
                  None \<Rightarrow> (Failed IndexError, df)
                | Some idx \<Rightarrow>
                   (let mode = radio_label m;
                        current_qty = quantity (df ! idx)
                    in if startswith mode ''Issue'' \<and> qty > current_qty
                       then (Failed InsufficientStockError, df)
                       else (let new_qty = (if startswith mode ''Issue'' then current_qty - qty
                                            else current_qty + qty);
                                 old_remarks = (case remarks (df ! idx) of None \<Rightarrow> [] | Some s \<Rightarrow> s)
                             in case split_ws mode of
                                  [] \<Rightarrow> (Failed IndexError, df)
                                | w # _ \<Rightarrow>
                                   (let line = ''['' @ now @ ''] '' @ w @ '' '' @ str_of_int qty
                                                @ '' ('' @ reason @ '')''
                                    in (Success,
                                        df[idx := (df ! idx)
                                          \<lparr>quantity := new_qty,
                                           last_updated := Some now,
                                           remarks := Some (strip_chars (old_remarks @ '' | '' @ line) '' |'')\<rparr>])))))))"

definition page_admin :: "table \<Rightarrow> string option \<Rightarrow> outcome \<times> table" where
  \<comment> \<open>With \<^verbatim>\<open>Delete selected item\<close> pressed: \<^verbatim>\<open>df[df["item_id"] != selected_id]\<close> is saved.\<close>
  "page_admin df selected_id =
     (if df = [] then (Info, df)
      else (Success, filter (\<lambda>r. \<not> id_eq (item_id r) selected_id) df))"

section \<open>Reading the pages\<close>

definition audit_line :: "string \<Rightarrow> txn_mode \<Rightarrow> int \<Rightarrow> string \<Rightarrow> string" where
  \<comment> \<open>The audit line of a transaction, with the first word of the radio option spelled out.\<close>
  "audit_line now m qty reason =
     ''['' @ now @ ''] '' @ (case m of Issue \<Rightarrow> ''Issue'' | Receive \<Rightarrow> ''Receive'') @ '' ''
       @ str_of_int qty @ '' ('' @ reason @ '')''"

definition posted_row :: "item \<Rightarrow> txn_mode \<Rightarrow> int \<Rightarrow> string \<Rightarrow> string \<Rightarrow> item" where
  \<comment> \<open>The row that a posted transaction leaves in place of the selected row.\<close>
  "posted_row r m qty reason now =
     r\<lparr>quantity := (case m of Issue \<Rightarrow> quantity r - qty | Receive \<Rightarrow> quantity r + qty),
       last_updated := Some now,
       remarks := Some (strip_chars ((case remarks r of None \<Rightarrow> [] | Some t \<Rightarrow> t) @ '' | ''
                    @ audit_line now m qty reason) '' |'')\<rparr>"


definition example_table :: table where
  \<comment> \<open>A table with a missing id, an id without a number and ids with the numbers 2 and 7.\<close>
  "example_table =
     [\<lparr>item_id = Some ''STN-0002'', item_name = Some ''Pen'', category = Some ''Pen'',
       unit = Some ''Nos'', quantity = 5, reorder_level = 10, location = Some ''Main Store'',
       last_updated = Some ''2024-01-01 09:00:00'', remarks = None\<rparr>,
      \<lparr>item_id = None, item_name = Some ''Stapler'', category = None,
       unit = Some ''Nos'', quantity = 20, reorder_level = 3, location = Some ''Annex'',
       last_updated = None, remarks = Some ''''\<rparr>,
      \<lparr>item_id = Some ''draft'', item_name = Some ''File'', category = Some ''File'',
       unit = Some ''Box'', quantity = 0, reorder_level = 0, location = None,
       last_updated = None, remarks = Some ''old stock''\<rparr>,
      \<lparr>item_id = Some ''X-7'', item_name = Some ''Marker'', category = Some ''Pen'',
       unit = Some ''Pack'', quantity = 12, reorder_level = 4, location = Some ''Annex'',
       last_updated = None, remarks = Some '' | checked''\<rparr>]"

definition example_form :: item_form where
  \<comment> \<open>The form of the scenario: a name, no category, unit or location.\<close>
  "example_form = \<lparr>f_item_name = ''A4 Paper'', f_category = '''', f_unit = '''', f_location = '''',
     f_quantity = 0, f_reorder_level = 10, f_remarks = ''''\<rparr>"

section \<open>Facts about the string functions\<close>

lemma digit_char_val: "d < 10 \<Longrightarrow> digit_val (digit_char d) = d"
proof -
  assume "d < 10"
  then have "d \<in> {0, 1, 2, 3, 4, 5, 6, 7, 8, 9}" by auto
  then show ?thesis by (auto simp: digit_val_def digit_char_def)
qed

lemma digit_char_isdigit: "d < 10 \<Longrightarrow> isdigit (digit_char d)"
proof -
  assume "d < 10"
  then have "d \<in> {0, 1, 2, 3, 4, 5, 6, 7, 8, 9}" by auto
  then show ?thesis by (auto simp: isdigit_def digit_char_def)
qed

lemma str_of_nat_digits: "c \<in> set (str_of_nat n) \<Longrightarrow> isdigit c"
proof (induction n rule: str_of_nat.induct)
  case (1 n)
  show ?case
  proof (cases "n < 10")
    case True
    with 1 show ?thesis by (simp add: str_of_nat.simps[of n] digit_char_isdigit)
  next
    case False
    with 1 show ?thesis by (auto simp add: str_of_nat.simps[of n] digit_char_isdigit)
  qed
qed

lemma str_of_nat_nonempty: "str_of_nat n \<noteq> []"
  by (subst str_of_nat.simps) simp

lemma int_digits_all_digits:
  "\<forall>c\<in>set s. isdigit c \<Longrightarrow> s \<noteq> [] \<or> prev \<Longrightarrow> int_digits prev acc s = Some (digits_val acc s)"
  by (induction s arbitrary: prev acc) (auto simp: digits_val_def)

lemma digits_val_append: "digits_val acc (s @ t) = digits_val (digits_val acc s) t"
  by (simp add: digits_val_def)

lemma digits_val_str_of_nat: "digits_val 0 (str_of_nat n) = n"
proof (induction n rule: str_of_nat.induct)
  case (1 n)
  show ?case
  proof (cases "n < 10")
    case True
    then show ?thesis by (simp add: str_of_nat.simps[of n] digits_val_def digit_char_val)
  next
    case False
    with 1 have "digits_val 0 (str_of_nat (n div 10)) = n div 10" by simp
    with False show ?thesis
      by (simp add: str_of_nat.simps[of n] digits_val_append digit_char_val)
         (simp add: digits_val_def digit_char_val)
  qed
qed

lemma digits_val_zeros: "digits_val 0 (replicate k CHR ''0'' @ s) = digits_val 0 s"
  by (induction k) (auto simp: digits_val_def digit_val_def)

lemma split_sep_nonempty: "split_sep c s \<noteq> []"
  by (induction s) (auto simp: Let_def)

lemma split_sep_absent: "c \<notin> set s \<Longrightarrow> split_sep c s = [s]"
  by (induction s) (auto simp: Let_def)

lemma split_sep_append: "split_sep c (p @ c # s) = split_sep c p @ split_sep c s"
  by (induction p) (auto simp: Let_def split_sep_nonempty)

lemma last_split_sep: "last (split_sep c s) = after_last c s"
proof (cases "c \<in> set s")
  case False
  then have tw: "takeWhile (\<lambda>x. x \<noteq> c) (rev s) = rev s"
    using takeWhile_eq_all_conv[of "\<lambda>x. x \<noteq> c" "rev s"] by auto
  from False show ?thesis by (simp add: split_sep_absent after_last_def tw)
next
  case True
  then obtain p t where s: "s = p @ c # t" and t: "c \<notin> set t"
    by (auto dest: split_list_last)
  from t have "takeWhile (\<lambda>x. x \<noteq> c) (rev t @ c # rev p) = rev t"
    by (subst takeWhile_tail) (auto simp: takeWhile_eq_all_conv)
  with s t show ?thesis
    by (simp add: split_sep_append split_sep_nonempty split_sep_absent after_last_def)
qed

lemma after_last_absent: "c \<notin> set (after_last c s)"
  by (auto simp: after_last_def dest: set_takeWhileD)

lemma set_strip_with: "set (strip_with p s) \<subseteq> set s"
  by (auto simp: strip_with_def dest!: set_dropWhileD)

lemma strip_with_id: "\<forall>c\<in>set s. \<not> p c \<Longrightarrow> strip_with p s = s"
proof -
  assume a: "\<forall>c\<in>set s. \<not> p c"
  then have "dropWhile p s = s" by (cases s) auto
  moreover from a have "dropWhile p (rev s) = rev s"
    by (cases "s = []") (auto simp: dropWhile_eq_self_iff hd_rev)
  ultimately show ?thesis by (simp add: strip_with_def)
qed

lemma py_int_nonneg: "py_int s = Some n \<Longrightarrow> CHR ''-'' \<notin> set s \<Longrightarrow> 0 \<le> n"
proof -
  assume a: "py_int s = Some n" and b: "CHR ''-'' \<notin> set s"
  from b have "CHR ''-'' \<notin> set (strip_with int_space s)" using set_strip_with by blast
  with a show ?thesis
    by (auto simp: py_int_def split: list.splits if_splits)
qed

lemma isdigit_not_space: "isdigit c \<Longrightarrow> \<not> int_space c"
  by (auto simp: isdigit_def int_space_def)

lemma py_int_digits:
  assumes "\<forall>c\<in>set s. isdigit c" "s \<noteq> []"
  shows "py_int s = Some (int (digits_val 0 s))"
proof -
  from assms(1) have "strip_with int_space s = s"
    by (intro strip_with_id) (auto dest: isdigit_not_space)
  moreover obtain c cs where s: "s = c # cs" using assms(2) by (cases s) auto
  moreover from assms(1) s have "isdigit c" by simp
  then have "c \<noteq> CHR ''+''" "c \<noteq> CHR ''-''" by (auto simp: isdigit_def)
  moreover have "int_digits False 0 s = Some (digits_val 0 s)"
    using assms by (intro int_digits_all_digits) auto
  ultimately show ?thesis by (simp add: py_int_def)
qed

lemma format_04d_nonneg:
  "0 \<le> n \<Longrightarrow>
   format_04d n = replicate (4 - length (str_of_nat (nat n))) CHR ''0'' @ str_of_nat (nat n)"
  by (simp add: format_04d_def Let_def)

lemma format_04d_digits: "0 \<le> n \<Longrightarrow> c \<in> set (format_04d n) \<Longrightarrow> isdigit c"
  by (auto simp: format_04d_nonneg isdigit_def dest: str_of_nat_digits)

lemma format_04d_value: "0 \<le> n \<Longrightarrow> py_int (format_04d n) = Some n"
proof -
  assume n: "0 \<le> n"
  have "format_04d n \<noteq> []" using n by (simp add: format_04d_nonneg str_of_nat_nonempty)
  with n have "py_int (format_04d n) = Some (int (digits_val 0 (format_04d n)))"
    by (intro py_int_digits) (auto dest: format_04d_digits)
  also have "digits_val 0 (format_04d n) = nat n"
    using n by (simp add: format_04d_nonneg digits_val_zeros digits_val_str_of_nat)
  finally show ?thesis using n by simp
qed

lemma stn_suffix: "0 \<le> n \<Longrightarrow> after_last CHR ''-'' (''STN-'' @ format_04d n) = format_04d n"
proof -
  assume n: "0 \<le> n"
  have "CHR ''-'' \<notin> set (format_04d n)"
  proof
    assume "CHR ''-'' \<in> set (format_04d n)"
    with n have "isdigit CHR ''-''" by (rule format_04d_digits)
    then show False by (simp add: isdigit_def)
  qed
  then have "last (split_sep CHR ''-'' (''STN'' @ CHR ''-'' # format_04d n)) = format_04d n"
    by (simp only: split_sep_append) (simp add: split_sep_absent)
  then have "after_last CHR ''-'' (''STN'' @ CHR ''-'' # format_04d n) = format_04d n"
    by (simp only: last_split_sep)
  then show ?thesis by simp
qed

section \<open>Facts about identifier generation\<close>

lemma set_map_filter: "set (List.map_filter f xs) = {y. \<exists>x\<in>set xs. f x = Some y}"
  by (induction xs) (auto simp: map_filter_simps split: option.splits)

lemma collect_nums_parsed: "collect_nums (List.map_filter item_id df) = parsed_suffixes df"
  by (induction df)
     (auto simp: parsed_suffixes_def map_filter_simps last_split_sep split: option.splits)

lemma parsed_suffixes_nonneg: "n \<in> set (parsed_suffixes df) \<Longrightarrow> 0 \<le> n"
proof -
  assume "n \<in> set (parsed_suffixes df)"
  then obtain x where "py_int (after_last CHR ''-'' x) = Some n"
    by (auto simp: parsed_suffixes_def set_map_filter split: option.splits)
  then show ?thesis using after_last_absent by (rule py_int_nonneg)
qed

lemma max_list_Max: "ns \<noteq> [] \<Longrightarrow> max_list ns = Max (set ns)"
proof (cases ns)
  case Nil
  assume "ns \<noteq> []"
  with Nil show ?thesis by simp
next
  case (Cons a list)
  show ?thesis unfolding Cons max_list_def by (simp only: Max.set_eq_fold list.sel)
qed

lemma next_num_pos: "1 \<le> next_num df"
proof (cases "parsed_suffixes df = []")
  case True
  then show ?thesis by (simp add: next_num_def)
next
  case False
  then have "Max (set (parsed_suffixes df)) \<in> set (parsed_suffixes df)" by (intro Max_in) auto
  then have "0 \<le> Max (set (parsed_suffixes df))" by (rule parsed_suffixes_nonneg)
  with False show ?thesis by (simp add: next_num_def)
qed

lemma next_num_fresh: "next_num df \<notin> set (parsed_suffixes df)"
proof
  assume a: "next_num df \<in> set (parsed_suffixes df)"
  then have ne: "parsed_suffixes df \<noteq> []" by auto
  from a have "next_num df \<le> Max (set (parsed_suffixes df))" by (intro Max_ge) auto
  with ne show False by (simp add: next_num_def)
qed

lemma generate_item_id_next:
  "df \<noteq> [] \<Longrightarrow> generate_item_id df = ''STN-'' @ format_04d (next_num df)"
  by (auto simp: generate_item_id_def next_num_def Let_def max_list_Max collect_nums_parsed)

lemma generate_item_id_suffix:
  "py_int (after_last CHR ''-'' (generate_item_id df)) = Some (next_num df)"
proof (cases "df = []")
  case True
  have "after_last CHR ''-'' ''STN-0001'' = ''0001''" by (simp add: after_last_def)
  moreover have "py_int ''0001'' = Some 1"
    by (simp add: py_int_def strip_with_def int_space_def isdigit_def digit_val_def)
  moreover have "next_num [] = 1" by (simp add: next_num_def parsed_suffixes_def map_filter_simps)
  ultimately show ?thesis using True by (simp add: generate_item_id_def)
next
  case False
  have nn: "0 \<le> next_num df" using next_num_pos[of df] by simp
  have "generate_item_id df = ''STN-'' @ format_04d (next_num df)"
    using False by (rule generate_item_id_next)
  then show ?thesis using stn_suffix[OF nn] format_04d_value[OF nn] by simp
qed

lemma generate_item_id_fresh: "Some (generate_item_id df) \<notin> item_id ` set df"
proof
  assume "Some (generate_item_id df) \<in> item_id ` set df"
  then obtain r where "r \<in> set df" "item_id r = Some (generate_item_id df)" by force
  then have "next_num df \<in> set (parsed_suffixes df)"
    using generate_item_id_suffix[of df]
    by (auto simp: parsed_suffixes_def set_map_filter split: option.splits)
  then show False using next_num_fresh by blast
qed

lemma example_next_num: "next_num example_table = 8"
  by (simp add: next_num_def parsed_suffixes_def example_table_def map_filter_simps
      after_last_def py_int_def strip_with_def int_space_def isdigit_def digit_val_def)

section \<open>Facts about the pages\<close>

lemma first_index_SomeD:
  "first_index P xs = Some i \<Longrightarrow> i < length xs \<and> P (xs ! i) \<and> (\<forall>j<i. \<not> P (xs ! j))"
proof (induction xs arbitrary: i)
  case Nil
  then show ?case by simp
next
  case (Cons x xs)
  show ?case
  proof (cases "P x")
    case True
    with Cons.prems show ?thesis by simp
  next
    case False
    with Cons.prems obtain k where k: "first_index P xs = Some k" "i = Suc k" by auto
    from Cons.IH[OF k(1)] False k(2) show ?thesis by (auto simp: less_Suc_eq_0_disj)
  qed
qed

lemma first_index_None: "first_index P xs = None \<longleftrightarrow> (\<forall>x\<in>set xs. \<not> P x)"
  by (induction xs) auto

lemma first_index_SomeI:
  "i < length xs \<Longrightarrow> P (xs ! i) \<Longrightarrow> \<forall>j<i. \<not> P (xs ! j) \<Longrightarrow> first_index P xs = Some i"
proof (induction xs arbitrary: i)
  case Nil
  then show ?case by simp
next
  case (Cons x xs)
  show ?case
  proof (cases i)
    case 0
    with Cons.prems show ?thesis by simp
  next
    case (Suc k)
    with Cons.prems have "\<not> P x" by auto
    moreover have "first_index P xs = Some k"
      using Cons.prems Suc by (intro Cons.IH) auto
    ultimately show ?thesis using Suc by simp
  qed
qed

lemma filter_Nil_first_index: "filter P xs = [] \<longleftrightarrow> first_index P xs = None"
  by (simp add: first_index_None filter_empty_conv)

lemma id_eq_Some: "id_eq c (Some s) \<longleftrightarrow> c = Some s"
  by (cases c) (auto simp: id_eq_def)

lemma id_eq_None: "\<not> id_eq c None"
  by (cases c) (auto simp: id_eq_def)

lemma split_ws_Issue:
  "split_ws ''Issue (decrease stock)'' = [''Issue'', ''(decrease'', ''stock)'']"
  by code_simp

lemma split_ws_Receive:
  "split_ws ''Receive (increase stock)'' = [''Receive'', ''(increase'', ''stock)'']"
  by code_simp

lemma startswith_Issue: "startswith ''Issue (decrease stock)'' ''Issue''"
  by (simp add: startswith_def)

lemma startswith_Receive: "\<not> startswith ''Receive (increase stock)'' ''Issue''"
  by (simp add: startswith_def)

lemma page_issue_receive_found:
  assumes "first_index (\<lambda>r. id_eq (item_id r) sid) df = Some idx"
  shows "page_issue_receive df sid m qty reason now =
    (if m = Issue \<and> qty > quantity (df ! idx) then (Failed InsufficientStockError, df)
     else (Success, df[idx := posted_row (df ! idx) m qty reason now]))"
proof -
  from assms have ne: "df \<noteq> []" by auto
  from assms have "filter (\<lambda>r. id_eq (item_id r) sid) df \<noteq> []"
    by (simp add: filter_Nil_first_index)
  then obtain row rest where f: "filter (\<lambda>r. id_eq (item_id r) sid) df = row # rest"
    by (cases "filter (\<lambda>r. id_eq (item_id r) sid) df") auto
  show ?thesis
    by (cases m)
       (simp_all add: page_issue_receive_def ne f assms Let_def split_ws_Issue split_ws_Receive startswith_Issue startswith_Receive
         posted_row_def audit_line_def)
qed

lemma page_issue_receive_absent:
  assumes "first_index (\<lambda>r. id_eq (item_id r) sid) df = None"
  shows "page_issue_receive df sid m qty reason now = (if df = [] then Info else Failed IndexError, df)"
  using assms by (simp add: page_issue_receive_def filter_Nil_first_index[symmetric])


lemma strip_audit_line:
  "strip_chars ('' | '' @ audit_line now m qty reason) '' |'' = audit_line now m qty reason"
  by (simp add: strip_chars_def strip_with_def audit_line_def)

lemma page_issue_receive_SuccessD:
  assumes "page_issue_receive df (Some s) m qty reason now = (Success, df')"
  obtains idx where "idx < length df" "item_id (df ! idx) = Some s"
    "\<forall>j<idx. item_id (df ! j) \<noteq> Some s" "df' = df[idx := posted_row (df ! idx) m qty reason now]"
proof (cases "first_index (\<lambda>r. id_eq (item_id r) (Some s)) df")
  case None
  with assms show ?thesis by (simp add: page_issue_receive_absent split: if_splits)
next
  case (Some idx)
  from first_index_SomeD[OF Some] have "idx < length df" "item_id (df ! idx) = Some s"
    "\<forall>j<idx. item_id (df ! j) \<noteq> Some s" by (auto simp: id_eq_Some)
  moreover from assms have "df' = df[idx := posted_row (df ! idx) m qty reason now]"
    by (simp add: page_issue_receive_found[OF Some] split: if_splits)
  ultimately show ?thesis by (rule that)
qed

lemma example_first_index:
  "first_index (\<lambda>r. id_eq (item_id r) (Some ''STN-0002'')) example_table = Some 0"
  by (simp add: example_table_def id_eq_def)

lemma example_rows:
  "length example_table = 4"
  "item_id (example_table ! 0) = Some ''STN-0002''"
  "quantity (example_table ! 0) = 5"
  "remarks (example_table ! 0) = None"
  "item_id (example_table ! 3) = Some ''X-7''"
  "remarks (example_table ! 3) = Some '' | checked''"
  "example_table ! 0 \<in> set example_table"
  "example_table ! 3 \<in> set example_table"
  "example_table \<noteq> []"
  "\<forall>r\<in>set example_table. 0 \<le> quantity r"
  "Some ''STN-0001'' \<notin> item_id ` set example_table"
  by (simp_all add: example_table_def)

lemma example_index_3:
  assumes "idx < length example_table" "item_id (example_table ! idx) = Some ''X-7''"
  shows "idx = 3"
proof -
  from assms(1) have "idx = 0 \<or> idx = 1 \<or> idx = 2 \<or> idx = 3"
    by (simp add: example_rows(1)) arith
  with assms(2) show ?thesis by (auto simp: example_table_def)
qed

lemma example_receive_success:
  "fst (page_issue_receive example_table (Some s) Receive 4 ''PO 17'' now) = Success"
  if "Some s \<in> item_id ` set example_table"
proof -
  from that have "first_index (\<lambda>r. id_eq (item_id r) (Some s)) example_table \<noteq> None"
    by (auto simp: first_index_None id_eq_Some)
  then obtain idx where "first_index (\<lambda>r. id_eq (item_id r) (Some s)) example_table = Some idx"
    by auto
  then show ?thesis by (simp add: page_issue_receive_found)
qed

section \<open>The claims\<close>

text \<open>
  C1. For every table, \<^verbatim>\<open>generate_item_id\<close> returns \<^verbatim>\<open>STN-0001\<close> when the table is empty.
  Otherwise it parses the integer after the last \<^verbatim>\<open>-\<close> of every id of the table, skips
  the ids where that text does not parse, and returns the greatest parsed number plus one
  (1 when none parses) formatted as \<^verbatim>\<open>STN-%04d\<close>. The number after the \<^verbatim>\<open>-\<close> of the returned
  id is that number, and the returned id is no id of the table.
\<close>

theorem generate_item_id_spec:
  "generate_item_id df = (if df = [] then ''STN-0001'' else ''STN-'' @ format_04d (next_num df))
   \<and> py_int (after_last CHR ''-'' (generate_item_id df)) = Some (next_num df)
   \<and> Some (generate_item_id df) \<notin> item_id ` set df"
proof (intro conjI)
  show "generate_item_id df = (if df = [] then ''STN-0001'' else ''STN-'' @ format_04d (next_num df))"
    by (cases "df = []") (simp_all add: generate_item_id_next, simp add: generate_item_id_def)
  show "py_int (after_last CHR ''-'' (generate_item_id df)) = Some (next_num df)"
    by (rule generate_item_id_suffix)
  show "Some (generate_item_id df) \<notin> item_id ` set df"
    by (rule generate_item_id_fresh)
qed

text \<open>
  The theorem at the table \<open>example_table\<close>: the parsed suffixes are 2 and 7, the text
  \<^verbatim>\<open>draft\<close> and the missing id are skipped, and the next id is \<^verbatim>\<open>STN-0008\<close>.
\<close>

theorem generate_item_id_spec_witness:
  "generate_item_id example_table = ''STN-0008''
   \<and> py_int (after_last CHR ''-'' (generate_item_id example_table)) = Some 8
   \<and> Some (generate_item_id example_table) \<notin> item_id ` set example_table"
proof -
  have ne: "example_table \<noteq> []" by (simp add: example_table_def)
  have f: "format_04d 8 = ''0008''"
    by code_simp
  show ?thesis
    using generate_item_id_spec[of example_table] ne f by (auto simp: example_next_num)
qed

text \<open>
  C2, as the source has it. A posted transaction stores, in the first row with the selected
  id, the old remarks (nothing for a missing value), the separator \<^verbatim>\<open> | \<close> and the audit
  line \<^verbatim>\<open>[<timestamp>] <Issue|Receive> <qty> (<reason>)\<close>, with the spaces and bars at both
  ends of the whole text removed. The word is the first word of the radio option,
  \<^verbatim>\<open>Issue\<close> or \<^verbatim>\<open>Receive\<close>; the source adds the \<^verbatim>\<open>d\<close> only in the success message.
\<close>

theorem audit_line_appended:
  assumes "page_issue_receive df (Some s) m qty reason now = (Success, df')"
  shows "\<exists>idx<length df. item_id (df ! idx) = Some s \<and> (\<forall>j<idx. item_id (df ! j) \<noteq> Some s) \<and>
     remarks (df' ! idx) =
       Some (strip_chars
         ((case remarks (df ! idx) of None \<Rightarrow> '''' | Some old \<Rightarrow> old) @ '' | '' @
          ''['' @ now @ ''] '' @ (case m of Issue \<Rightarrow> ''Issue'' | Receive \<Rightarrow> ''Receive'')
            @ '' '' @ str_of_int qty @ '' ('' @ reason @ '')'') '' |'')"
proof -
  from assms obtain idx where i: "idx < length df" "item_id (df ! idx) = Some s"
    "\<forall>j<idx. item_id (df ! j) \<noteq> Some s" "df' = df[idx := posted_row (df ! idx) m qty reason now]"
    by (rule page_issue_receive_SuccessD)
  have "remarks (df' ! idx) = Some (strip_chars
         ((case remarks (df ! idx) of None \<Rightarrow> '''' | Some old \<Rightarrow> old) @ '' | '' @
          audit_line now m qty reason) '' |'')"
    using i(1) by (simp add: i(4) posted_row_def)
  with i(1-3) show ?thesis unfolding audit_line_def by blast
qed

text \<open>
  The theorem at the row \<^verbatim>\<open>X-7\<close> of \<open>example_table\<close>, whose remarks begin with a
  separator: the leading separator is removed and the line is joined with \<^verbatim>\<open> | \<close>.
\<close>

theorem audit_line_appended_witness:
  "page_issue_receive example_table (Some ''X-7'') Receive 4 ''PO 17'' ''2024-01-02 10:00:00''
     = (Success, snd (page_issue_receive example_table (Some ''X-7'') Receive 4 ''PO 17''
          ''2024-01-02 10:00:00''))
   \<and> remarks (example_table ! 3) = Some '' | checked''
   \<and> remarks (snd (page_issue_receive example_table (Some ''X-7'') Receive 4 ''PO 17''
          ''2024-01-02 10:00:00'') ! 3)
       = Some ''checked | [2024-01-02 10:00:00] Receive 4 (PO 17)''"
proof -
  have "Some ''X-7'' \<in> item_id ` set example_table"
    using example_rows(8) example_rows(5) by (metis image_eqI)
  then have "fst (page_issue_receive example_table (Some ''X-7'') Receive 4 ''PO 17''
     ''2024-01-02 10:00:00'') = Success"
    by (rule example_receive_success)
  then have h: "page_issue_receive example_table (Some ''X-7'') Receive 4 ''PO 17''
     ''2024-01-02 10:00:00'' = (Success, snd (page_issue_receive example_table (Some ''X-7'')
        Receive 4 ''PO 17'' ''2024-01-02 10:00:00''))"
    by (metis prod.collapse)
  have s: "str_of_int 4 = ''4''" by code_simp
  have t: "strip_chars '' | checked | [2024-01-02 10:00:00] Receive 4 (PO 17)'' '' |''
     = ''checked | [2024-01-02 10:00:00] Receive 4 (PO 17)''"
    by (simp add: strip_chars_def strip_with_def)
  from audit_line_appended[OF h]
  have "remarks (snd (page_issue_receive example_table (Some ''X-7'') Receive 4 ''PO 17''
          ''2024-01-02 10:00:00'') ! 3)
       = Some ''checked | [2024-01-02 10:00:00] Receive 4 (PO 17)''"
    by (auto dest!: example_index_3 simp: example_rows(6) s t)
  with h example_rows(6) show ?thesis by blast
qed

text \<open>
  C2 as the specification words it fails: after issuing 3 with the reason \<^verbatim>\<open>office\<close> from
  the row \<^verbatim>\<open>STN-0002\<close> (quantity 5, reorder level 10, no remarks) the remarks read
  \<^verbatim>\<open>Issue 3 (office)\<close> after the time stamp, not \<^verbatim>\<open>Issued 3 (office)\<close>.
\<close>

theorem audit_line_word_counterexample:
  "fst (page_issue_receive example_table (Some ''STN-0002'') Issue 3 ''office'' ''2024-01-02 10:00:00'')
     = Success
   \<and> remarks (snd (page_issue_receive example_table (Some ''STN-0002'') Issue 3 ''office''
        ''2024-01-02 10:00:00'') ! 0) = Some ''[2024-01-02 10:00:00] Issue 3 (office)''
   \<and> remarks (snd (page_issue_receive example_table (Some ''STN-0002'') Issue 3 ''office''
        ''2024-01-02 10:00:00'') ! 0) \<noteq> Some ''[2024-01-02 10:00:00] Issued 3 (office)''"
proof -
  have s: "str_of_int 3 = ''3''" by code_simp
  have q: "quantity (example_table ! 0) = 5" "remarks (example_table ! 0) = None"
    by (simp_all add: example_table_def)
  have "remarks (posted_row (example_table ! 0) Issue 3 ''office'' ''2024-01-02 10:00:00'')
    = Some ''[2024-01-02 10:00:00] Issue 3 (office)''"
    using strip_audit_line[of "''2024-01-02 10:00:00''" Issue 3 "''office''"]
    by (simp add: posted_row_def q audit_line_def s)
  then show ?thesis
    by (simp add: page_issue_receive_found[OF example_first_index] q) (simp add: example_table_def)
qed






text \<open>
  C5. When every row of the table has a quantity of at least 0, the quantity of the form is
  at least 0 and the quantity of the transaction is at least 1, every row of the table that
  the add/update page (in either mode), the issue/receive page (in either mode) and the
  delete page leave has a quantity of at least 0.
\<close>

theorem quantity_never_negative:
  assumes "\<forall>r\<in>set df. 0 \<le> quantity r" "0 \<le> f_quantity f" "1 \<le> qty"
  shows "(\<forall>r\<in>set (snd (page_add_edit df mode sid f now)). 0 \<le> quantity r)
       \<and> (\<forall>r\<in>set (snd (page_issue_receive df sid m qty reason now)). 0 \<le> quantity r)
       \<and> (\<forall>r\<in>set (snd (page_admin df sid)). 0 \<le> quantity r)"
proof (intro conjI)
  show "\<forall>r\<in>set (snd (page_admin df sid)). 0 \<le> quantity r"
    using assms(1) by (simp add: page_admin_def)
  show "\<forall>r\<in>set (snd (page_issue_receive df sid m qty reason now)). 0 \<le> quantity r"
  proof (cases "first_index (\<lambda>r. id_eq (item_id r) sid) df")
    case None
    then show ?thesis using assms(1) by (simp add: page_issue_receive_absent)
  next
    case (Some idx)
    then have "idx < length df" by (auto dest: first_index_SomeD)
    then have "0 \<le> quantity (df ! idx)" using assms(1) by simp
    then have "qty \<le> quantity (df ! idx) \<or> m = Receive \<Longrightarrow> 0 \<le> quantity (posted_row (df ! idx) m qty reason now)"
      using assms(3) by (cases m) (auto simp: posted_row_def)
    then show ?thesis using assms(1)
      by (cases m) (auto simp: page_issue_receive_found[OF Some] dest!: set_update_subset_insert[THEN subsetD])
  qed
  show "\<forall>r\<in>set (snd (page_add_edit df mode sid f now)). 0 \<le> quantity r"
  proof (cases mode)
    case Add_new_item
    then show ?thesis using assms(1,2) by (simp add: page_add_edit_def Let_def)
  next
    case Update_existing_item
    then show ?thesis using assms(1,2)
      by (auto simp: page_add_edit_def split: list.splits option.splits
          dest!: set_update_subset_insert[THEN subsetD])
  qed
qed

text \<open>
  The theorem at \<open>example_table\<close>: updating the row \<^verbatim>\<open>STN-0002\<close> with the quantity 0,
  issuing all 5 of it, and deleting it.
\<close>

theorem quantity_never_negative_witness:
  "list_all (\<lambda>r. 0 \<le> quantity r) example_table \<and> 0 \<le> f_quantity example_form \<and> (1::int) \<le> 5
   \<and> list_all (\<lambda>r. 0 \<le> quantity r)
         (snd (page_add_edit example_table Update_existing_item (Some ''STN-0002'')
            example_form ''2024-01-02 10:00:00''))
   \<and> list_all (\<lambda>r. 0 \<le> quantity r)
         (snd (page_issue_receive example_table (Some ''STN-0002'') Issue 5 ''office''
            ''2024-01-02 10:00:00''))
   \<and> list_all (\<lambda>r. 0 \<le> quantity r) (snd (page_admin example_table (Some ''STN-0002'')))"
proof -
  have h2: "0 \<le> f_quantity example_form" by (simp add: example_form_def)
  have h3: "(1::int) \<le> 5" by simp
  from quantity_never_negative[OF example_rows(10) h2 h3] example_rows(10) h2 h3
  show ?thesis unfolding list_all_iff by blast
qed

text \<open>
  C6. \<^verbatim>\<open>apply_filters\<close> returns exactly the rows whose category is in the category list
  (when the list is not empty), whose location is in the location list (when that list is
  not empty) and whose quantity is at most the reorder level (when only low stock is asked
  for), in the order of the table. An empty list and an unset flag restrict nothing.
\<close>

theorem apply_filters_spec:
  "apply_filters df cf lf low =
     filter (\<lambda>r. (cf = [] \<or> (\<exists>c\<in>set cf. category r = Some c))
                \<and> (lf = [] \<or> (\<exists>l\<in>set lf. location r = Some l))
                \<and> (low \<longrightarrow> quantity r \<le> reorder_level r)) df
   \<and> subseq (apply_filters df cf lf low) df"
proof -
  have isin: "\<And>c vs. isin c vs \<longleftrightarrow> (\<exists>v\<in>set vs. c = Some v)"
    by (auto simp: isin_def split: option.splits)
  have "apply_filters df cf lf low =
     filter (\<lambda>r. (cf = [] \<or> (\<exists>c\<in>set cf. category r = Some c))
                \<and> (lf = [] \<or> (\<exists>l\<in>set lf. location r = Some l))
                \<and> (low \<longrightarrow> quantity r \<le> reorder_level r)) df"
    by (auto simp: apply_filters_def Let_def isin intro!: filter_cong)
  then show ?thesis by simp
qed

text \<open>
  The theorem at \<open>example_table\<close>: the low-stock rows of the category \<^verbatim>\<open>Pen\<close>, and the
  rows of the location \<^verbatim>\<open>Annex\<close>.
\<close>

theorem apply_filters_spec_witness:
  "apply_filters example_table [''Pen''] [] True = [example_table ! 0]
   \<and> apply_filters example_table [] [''Annex''] False = [example_table ! 1, example_table ! 3]
   \<and> subseq (apply_filters example_table [''Pen''] [] True) example_table"
  using apply_filters_spec[of example_table "[''Pen'']" "[]" True]
    apply_filters_spec[of example_table "[]" "[''Annex'']" False]
  by (simp add: example_table_def)

text \<open>
  C8. Adding the item \<^verbatim>\<open>A4 Paper\<close> with quantity 0, reorder level 10 and no category, unit
  or location to the empty table gives one row with the id \<^verbatim>\<open>STN-0001\<close>, the category
  \<^verbatim>\<open>Uncategorized\<close>, the unit \<^verbatim>\<open>Nos\<close> and the location \<^verbatim>\<open>Not specified\<close>. On any table,
  adding fails with \<open>ValidationError\<close> when the name is empty after \<^verbatim>\<open>strip()\<close> and changes
  nothing; otherwise it appends one row with the generated id, which no row of the table
  has, the stripped fields with their defaults, and the time stamp.
\<close>

theorem add_item_spec:
  "page_add_edit [] Add_new_item sid
       \<lparr>f_item_name = ''A4 Paper'', f_category = '''', f_unit = '''', f_location = '''',
        f_quantity = 0, f_reorder_level = 10, f_remarks = ''''\<rparr> now
     = (Success, [\<lparr>item_id = Some ''STN-0001'', item_name = Some ''A4 Paper'',
                   category = Some ''Uncategorized'', unit = Some ''Nos'', quantity = 0,
                   reorder_level = 10, location = Some ''Not specified'',
                   last_updated = Some now, remarks = Some ''''\<rparr>])
   \<and> (strip (f_item_name f) = [] \<longrightarrow>
        page_add_edit df Add_new_item sid f now = (Failed ValidationError, df))
   \<and> (strip (f_item_name f) \<noteq> [] \<longrightarrow>
        (\<exists>row. page_add_edit df Add_new_item sid f now = (Success, df @ [row])
           \<and> item_id row = Some (generate_item_id df)
           \<and> item_id row \<notin> item_id ` set df
           \<and> item_name row = Some (strip (f_item_name f))
           \<and> category row = Some (if strip (f_category f) = [] then ''Uncategorized''
                                   else strip (f_category f))
           \<and> unit row = Some (if strip (f_unit f) = [] then ''Nos'' else strip (f_unit f))
           \<and> location row = Some (if strip (f_location f) = [] then ''Not specified''
                                   else strip (f_location f))
           \<and> quantity row = f_quantity f
           \<and> reorder_level row = f_reorder_level f
           \<and> last_updated row = Some now
           \<and> remarks row = Some (strip (f_remarks f))))"
proof (intro conjI impI)
  have "strip ''A4 Paper'' = ''A4 Paper''" "strip '''' = ''''"
    by (simp_all add: strip_def strip_with_def isspace_def)
  then show "page_add_edit [] Add_new_item sid
       \<lparr>f_item_name = ''A4 Paper'', f_category = '''', f_unit = '''', f_location = '''',
        f_quantity = 0, f_reorder_level = 10, f_remarks = ''''\<rparr> now
     = (Success, [\<lparr>item_id = Some ''STN-0001'', item_name = Some ''A4 Paper'',
                   category = Some ''Uncategorized'', unit = Some ''Nos'', quantity = 0,
                   reorder_level = 10, location = Some ''Not specified'',
                   last_updated = Some now, remarks = Some ''''\<rparr>])"
    by (simp add: page_add_edit_def generate_item_id_def or_default_def)
next
  assume "strip (f_item_name f) = []"
  then show "page_add_edit df Add_new_item sid f now = (Failed ValidationError, df)"
    by (simp add: page_add_edit_def)
next
  assume "strip (f_item_name f) \<noteq> []"
  then show "\<exists>row. page_add_edit df Add_new_item sid f now = (Success, df @ [row])
           \<and> item_id row = Some (generate_item_id df)
           \<and> item_id row \<notin> item_id ` set df
           \<and> item_name row = Some (strip (f_item_name f))
           \<and> category row = Some (if strip (f_category f) = [] then ''Uncategorized''
                                   else strip (f_category f))
           \<and> unit row = Some (if strip (f_unit f) = [] then ''Nos'' else strip (f_unit f))
           \<and> location row = Some (if strip (f_location f) = [] then ''Not specified''
                                   else strip (f_location f))
           \<and> quantity row = f_quantity f
           \<and> reorder_level row = f_reorder_level f
           \<and> last_updated row = Some now
           \<and> remarks row = Some (strip (f_remarks f))"
    using generate_item_id_fresh[of df]
    by (simp add: page_add_edit_def Let_def or_default_def)
qed

text \<open>
  The theorem at \<open>example_table\<close>: a name of two spaces is refused, the scenario's form is
  appended with the id \<^verbatim>\<open>STN-0008\<close> and the three defaults.
\<close>

theorem add_item_spec_witness:
  "strip (f_item_name (example_form\<lparr>f_item_name := ''  ''\<rparr>)) = []
   \<and> page_add_edit example_table Add_new_item None (example_form\<lparr>f_item_name := ''  ''\<rparr>)
        ''2024-01-02 10:00:00'' = (Failed ValidationError, example_table)
   \<and> strip (f_item_name example_form) \<noteq> []
   \<and> (\<exists>row. page_add_edit example_table Add_new_item None example_form ''2024-01-02 10:00:00''
               = (Success, example_table @ [row])
          \<and> item_id row = Some ''STN-0008'' \<and> category row = Some ''Uncategorized''
          \<and> unit row = Some ''Nos'' \<and> location row = Some ''Not specified'')"
proof -
  have e: "strip (f_item_name (example_form\<lparr>f_item_name := ''  ''\<rparr>)) = []"
    by (simp add: strip_def strip_with_def isspace_def)
  have n: "strip (f_item_name example_form) \<noteq> []"
    by (simp add: example_form_def strip_def strip_with_def isspace_def)
  have b: "strip (f_category example_form) = []" "strip (f_unit example_form) = []"
    "strip (f_location example_form) = []"
    by (simp_all add: example_form_def strip_def strip_with_def)
  have g: "generate_item_id example_table = ''STN-0008''"
  proof -
    have "format_04d 8 = ''0008''" by code_simp
    then show ?thesis
      by (simp add: generate_item_id_next[OF example_rows(9)] example_next_num)
  qed
  from add_item_spec[of None "''2024-01-02 10:00:00''" "example_form\<lparr>f_item_name := ''  ''\<rparr>"
      example_table] e
  have a: "page_add_edit example_table Add_new_item None (example_form\<lparr>f_item_name := ''  ''\<rparr>)
        ''2024-01-02 10:00:00'' = (Failed ValidationError, example_table)" by blast
  from add_item_spec[of None "''2024-01-02 10:00:00''" example_form example_table] n
  have "\<exists>row. page_add_edit example_table Add_new_item None example_form ''2024-01-02 10:00:00''
               = (Success, example_table @ [row])
          \<and> item_id row = Some ''STN-0008'' \<and> category row = Some ''Uncategorized''
          \<and> unit row = Some ''Nos'' \<and> location row = Some ''Not specified''"
    by (auto simp: g b)
  with e a n show ?thesis by blast
qed

text \<open>
  C9. Deleting an id keeps exactly the rows with another id, in the order of the table, and
  reports no error. When no row has the id the table stays as it was.
\<close>

theorem page_admin_delete:
  "snd (page_admin df (Some s)) = filter (\<lambda>r. item_id r \<noteq> Some s) df
   \<and> subseq (snd (page_admin df (Some s))) df
   \<and> (\<forall>e. fst (page_admin df (Some s)) \<noteq> Failed e)
   \<and> (Some s \<notin> item_id ` set df \<longrightarrow> snd (page_admin df (Some s)) = df)"
proof -
  have a: "snd (page_admin df (Some s)) = filter (\<lambda>r. item_id r \<noteq> Some s) df"
    by (simp add: page_admin_def id_eq_Some)
  have "Some s \<notin> item_id ` set df \<Longrightarrow> filter (\<lambda>r. item_id r \<noteq> Some s) df = df"
    by (force simp: filter_id_conv)
  with a show ?thesis by (auto simp: page_admin_def)
qed

text \<open>
  The theorem at \<open>example_table\<close>: the absent id \<^verbatim>\<open>STN-0001\<close> changes nothing, deleting
  \<^verbatim>\<open>draft\<close> leaves the other three rows in order.
\<close>

theorem page_admin_delete_witness:
  "Some ''STN-0001'' \<notin> item_id ` set example_table
   \<and> snd (page_admin example_table (Some ''STN-0001'')) = example_table
   \<and> map item_id (snd (page_admin example_table (Some ''draft'')))
       = [Some ''STN-0002'', None, Some ''X-7'']"
proof -
  from page_admin_delete[of example_table "''STN-0001''"] example_rows(11)
  have a: "snd (page_admin example_table (Some ''STN-0001'')) = example_table" by blast
  from page_admin_delete[of example_table "''draft''"]
  have "snd (page_admin example_table (Some ''draft''))
      = filter (\<lambda>r. item_id r \<noteq> Some ''draft'') example_table" by blast
  then have "map item_id (snd (page_admin example_table (Some ''draft'')))
       = [Some ''STN-0002'', None, Some ''X-7'']"
    by (simp add: example_table_def)
  with a example_rows(11) show ?thesis by blast
qed

text \<open>
  C10. After a posted transaction on a row whose remarks are missing or empty, the remarks
  of that row are exactly the audit line that the transaction wrote: no separator comes
  before or after it.
\<close>

theorem audit_line_on_blank_remarks:
  assumes "page_issue_receive df (Some s) m qty reason now = (Success, df')"
  shows "\<exists>idx<length df. item_id (df ! idx) = Some s \<and> (\<forall>j<idx. item_id (df ! j) \<noteq> Some s) \<and>
     (remarks (df ! idx) = None \<or> remarks (df ! idx) = Some '''' \<longrightarrow>
        remarks (df' ! idx) =
          Some (''['' @ now @ ''] '' @ (case m of Issue \<Rightarrow> ''Issue'' | Receive \<Rightarrow> ''Receive'')
                 @ '' '' @ str_of_int qty @ '' ('' @ reason @ '')''))"
proof -
  from assms obtain idx where i: "idx < length df" "item_id (df ! idx) = Some s"
    "\<forall>j<idx. item_id (df ! j) \<noteq> Some s" "df' = df[idx := posted_row (df ! idx) m qty reason now]"
    by (rule page_issue_receive_SuccessD)
  have "remarks (df ! idx) = None \<or> remarks (df ! idx) = Some '''' \<Longrightarrow>
      remarks (df' ! idx) = Some (audit_line now m qty reason)"
    using i(1) strip_audit_line[of now m qty reason] by (auto simp: i(4) posted_row_def)
  with i(1-3) show ?thesis unfolding audit_line_def by blast
qed

text \<open>
  The theorem at the row \<^verbatim>\<open>STN-0002\<close> of \<open>example_table\<close>, whose remarks are missing.
\<close>

theorem audit_line_on_blank_remarks_witness:
  "page_issue_receive example_table (Some ''STN-0002'') Receive 4 ''PO 17'' ''2024-01-02 10:00:00''
     = (Success, snd (page_issue_receive example_table (Some ''STN-0002'') Receive 4 ''PO 17''
          ''2024-01-02 10:00:00''))
   \<and> remarks (example_table ! 0) = None
   \<and> remarks (snd (page_issue_receive example_table (Some ''STN-0002'') Receive 4 ''PO 17''
          ''2024-01-02 10:00:00'') ! 0) = Some ''[2024-01-02 10:00:00] Receive 4 (PO 17)''"
proof -
  have "Some ''STN-0002'' \<in> item_id ` set example_table"
    using example_rows(7) example_rows(2) by (metis image_eqI)
  then have "fst (page_issue_receive example_table (Some ''STN-0002'') Receive 4 ''PO 17''
     ''2024-01-02 10:00:00'') = Success"
    by (rule example_receive_success)
  then have h: "page_issue_receive example_table (Some ''STN-0002'') Receive 4 ''PO 17''
     ''2024-01-02 10:00:00'' = (Success, snd (page_issue_receive example_table (Some ''STN-0002'')
        Receive 4 ''PO 17'' ''2024-01-02 10:00:00''))"
    by (metis prod.collapse)
  have s: "str_of_int 4 = ''4''" by code_simp
  have zero: "idx = 0" if "\<forall>j<idx. item_id (example_table ! j) \<noteq> Some ''STN-0002''" for idx
    using that example_rows(2) by (cases idx) auto
  from audit_line_on_blank_remarks[OF h]
  have "remarks (snd (page_issue_receive example_table (Some ''STN-0002'') Receive 4 ''PO 17''
          ''2024-01-02 10:00:00'') ! 0) = Some ''[2024-01-02 10:00:00] Receive 4 (PO 17)''"
    by (auto dest!: zero simp: example_rows(4) s)
  with h example_rows(4) show ?thesis by blast
qed

end
